theory Spec2Isabelle
  imports Complex_Main
begin

section \<open>Python values and exceptions\<close>

text \<open>
  The three scripts of \<^verbatim>\<open>ml-training/\<close> are embedded function by function.
  A Python exception that the scripts never catch is a value of \<open>pyerr\<close>; a function
  that can raise returns \<open>pyerr + 'a\<close>, with \<open>Inl\<close> for the raise.
\<close>

datatype pyerr =
    TypeError | AttributeError | KeyError | JSONDecodeError | ParserError | EOFError | OSError

definition then_e :: "'e + 'a \<Rightarrow> ('a \<Rightarrow> 'e + 'b) \<Rightarrow> 'e + 'b" where
  "then_e m f = (case m of Inl e \<Rightarrow> Inl e | Inr x \<Rightarrow> f x)"

text \<open>
  What \<^verbatim>\<open>json.load\<close> returns. A float is its value, or one of the three
  non-finite literals the parser also accepts. An object is the parsed \<^verbatim>\<open>dict\<close>,
  kept as an association list; a lookup takes the first binding of the key.
\<close>

datatype pyfloat = Finite rat | NaN_float | Infinite bool

datatype json =
    JNull
  | JBool bool
  | JInt int
  | JFloat pyfloat
  | JStr string
  | JArr "json list"
  | JObj "(string \<times> json) list"

text \<open>\<^verbatim>\<open>x.get(k, d)\<close>: only a \<^verbatim>\<open>dict\<close> has the method.\<close>

fun py_get :: "json \<Rightarrow> string \<Rightarrow> json \<Rightarrow> pyerr + json" where
  "py_get (JObj kvs) k d = Inr (case map_of kvs k of None \<Rightarrow> d | Some v \<Rightarrow> v)"
| "py_get _ k d = Inl AttributeError"

text \<open>
  \<^verbatim>\<open>for x in v\<close>: a list yields its elements, a \<^verbatim>\<open>dict\<close> its keys, a
  string its characters; anything else is not iterable.
\<close>

fun py_iter :: "json \<Rightarrow> pyerr + json list" where
  "py_iter (JArr xs) = Inr xs"
| "py_iter (JObj kvs) = Inr (map (\<lambda>kv. JStr (fst kv)) kvs)"
| "py_iter (JStr s) = Inr (map (\<lambda>c. JStr [c]) s)"
| "py_iter _ = Inl TypeError"

text \<open>Truth value of a Python object, as \<^verbatim>\<open>1 if v else 0\<close> and \<^verbatim>\<open>if v:\<close> test it.\<close>

fun truthy :: "json \<Rightarrow> bool" where
  "truthy JNull = False"
| "truthy (JBool b) = b"
| "truthy (JInt i) = (i \<noteq> 0)"
| "truthy (JFloat f) = (f \<noteq> Finite 0)"
| "truthy (JStr s) = (s \<noteq> [])"
| "truthy (JArr xs) = (xs \<noteq> [])"
| "truthy (JObj kvs) = (kvs \<noteq> [])"

section \<open>The record collector (\<^verbatim>\<open>collect_training_data.py\<close>)\<close>

text \<open>
  One dictionary appended to \<^verbatim>\<open>training_data\<close>: the eight fields copied from
  \<^verbatim>\<open>original\<close> (any JSON value) and the 0/1 label. The key \<^verbatim>\<open>file\<close> is the
  field \<open>file_path\<close>.
\<close>

record row =
  name :: json
  description :: json
  severity :: json
  cve :: json
  cwe :: json
  file_path :: json
  line :: json
  message :: json
  is_real_threat :: nat

text \<open>
  The body of the inner loop (lines 49 to 65). The three lookups on \<^verbatim>\<open>vuln\<close> and
  \<^verbatim>\<open>ml_pred\<close> run before the dictionary literal reads \<^verbatim>\<open>original\<close>.
\<close>

definition vuln_record :: "json \<Rightarrow> pyerr + row" where
  "vuln_record vuln =
     then_e (py_get vuln ''original'' (JObj [])) (\<lambda>original.
     then_e (py_get vuln ''mlPrediction'' (JObj [])) (\<lambda>ml_pred.
     then_e (py_get ml_pred ''isRealThreat'' (JBool True)) (\<lambda>is_threat.
     then_e (py_get original ''name'' (JStr [])) (\<lambda>n.
     then_e (py_get original ''description'' (JStr [])) (\<lambda>d.
     then_e (py_get original ''severity'' (JStr ''MEDIUM'')) (\<lambda>s.
     then_e (py_get original ''cve'' (JStr [])) (\<lambda>cv.
     then_e (py_get original ''cwe'' (JStr [])) (\<lambda>cw.
     then_e (py_get original ''file'' (JStr [])) (\<lambda>f.
     then_e (py_get original ''line'' (JStr [])) (\<lambda>l.
     then_e (py_get original ''message'' (JStr [])) (\<lambda>m.
       Inr \<lparr> name = n, description = d, severity = s, cve = cv, cwe = cw,
             file_path = f, line = l, message = m,
             is_real_threat = (if truthy is_threat then 1 else 0) \<rparr>)))))))))))"

text \<open>The inner loop over one analysis' vulnerabilities, appending to the list so far.\<close>

fun collect_vulns :: "row list \<Rightarrow> json list \<Rightarrow> pyerr + row list" where
  "collect_vulns acc [] = Inr acc"
| "collect_vulns acc (vuln # vs) =
     then_e (vuln_record vuln) (\<lambda>r. collect_vulns (acc @ [r]) vs)"

definition analysis_vulns :: "json \<Rightarrow> pyerr + json list" where
  "analysis_vulns analysis =
     then_e (py_get analysis ''result'' (JObj [])) (\<lambda>result.
     then_e (py_get result ''vulnerabilities'' (JArr [])) py_iter)"

text \<open>The outer loop over the analyses of the history.\<close>

fun collect_analyses :: "row list \<Rightarrow> json list \<Rightarrow> pyerr + row list" where
  "collect_analyses acc [] = Inr acc"
| "collect_analyses acc (analysis # as) =
     then_e (analysis_vulns analysis) (\<lambda>vs.
     then_e (collect_vulns acc vs) (\<lambda>acc'. collect_analyses acc' as))"

text \<open>
  A JSON file on disk: absent, present but rejected by \<^verbatim>\<open>json.load\<close>, or present
  with the value it parses to.
\<close>

datatype json_file = Absent | Malformed | Content json

datatype message =
    FeedbackInstructions
  | FileNotFound string
  | CsvCreated nat
  | NoDataFound

definition collect_from_history :: "json_file \<Rightarrow> message list \<times> (pyerr + row list)" where
  "collect_from_history history_file =
     (case history_file of
        Absent \<Rightarrow> ([FileNotFound ''data/history.json''], Inr [])
      | Malformed \<Rightarrow> ([], Inl JSONDecodeError)
      | Content history \<Rightarrow> ([], then_e (py_iter history) (collect_analyses [])))"

definition collect_from_feedback :: "json_file \<Rightarrow> message list \<times> (pyerr + json)" where
  "collect_from_feedback feedback_file =
     (case feedback_file of
        Absent \<Rightarrow> ([FeedbackInstructions, FileNotFound ''data/feedback.json''], Inr (JArr []))
      | Malformed \<Rightarrow> ([FeedbackInstructions], Inl JSONDecodeError)
      | Content feedbacks \<Rightarrow> ([FeedbackInstructions], Inr feedbacks))"

text \<open>
  The files \<^verbatim>\<open>create_training_csv\<close> reads and writes. \<open>training_csv\<close> is the list
  of rows handed to \<^verbatim>\<open>writer.writerows\<close>, or \<open>None\<close> while the file does not exist.
\<close>

record collector_files =
  history_json :: json_file
  feedback_json :: json_file
  training_csv :: "row list option"

text \<open>
  The result is what was printed, the uncaught exception if any, and the files afterwards.
  The branch taken when \<^verbatim>\<open>feedback_data\<close> is truthy is \<^verbatim>\<open>pass\<close>.
\<close>

definition create_training_csv ::
  "collector_files \<Rightarrow> message list \<times> pyerr option \<times> collector_files" where
  "create_training_csv fs =
     (case collect_from_history (history_json fs) of
        (out1, Inl e) \<Rightarrow> (out1, Some e, fs)
      | (out1, Inr history_data) \<Rightarrow>
          (case collect_from_feedback (feedback_json fs) of
             (out2, Inl e) \<Rightarrow> (out1 @ out2, Some e, fs)
           | (out2, Inr feedback_data) \<Rightarrow>
               (let all_data = history_data;
                    all_data = (if truthy feedback_data then all_data else all_data)
                in if all_data \<noteq> []
                   then (out1 @ out2 @ [CsvCreated (length all_data)], None,
                         fs\<lparr>training_csv := Some all_data\<rparr>)
                   else (out1 @ out2 @ [NoDataFound], None, fs))))"

section \<open>Tables (\<^verbatim>\<open>pandas.DataFrame\<close>)\<close>

text \<open>
  A cell of a column is missing (\<^verbatim>\<open>NaN\<close>), a string or a number. A table is the list
  of its columns in insertion order, each with its label; all columns of one table have
  the same length. Strings are lists of characters with code points below 256.
\<close>

datatype cell = NaN | Str string | Num int

type_synonym column = "cell list"

type_synonym frame = "(string \<times> column) list"

text \<open>\<^verbatim>\<open>df[k]\<close> raises \<^verbatim>\<open>KeyError\<close> for a label the table does not have.\<close>

definition getcol :: "frame \<Rightarrow> string \<Rightarrow> pyerr + column" where
  "getcol df k = (case map_of df k of None \<Rightarrow> Inl KeyError | Some c \<Rightarrow> Inr c)"

text \<open>
  \<^verbatim>\<open>df[k] = col\<close> replaces the column in place when the label exists and appends it
  otherwise.
\<close>

fun setcol :: "frame \<Rightarrow> string \<Rightarrow> column \<Rightarrow> frame" where
  "setcol [] k col = [(k, col)]"
| "setcol ((k', c) # df) k col =
     (if k' = k then (k, col) # df else (k', c) # setcol df k col)"

text \<open>\<^verbatim>\<open>len(df)\<close>: the number of rows.\<close>

fun frame_len :: "frame \<Rightarrow> nat" where
  "frame_len [] = 0"
| "frame_len ((k, c) # df) = length c"

fun map_e :: "('a \<Rightarrow> 'e + 'b) \<Rightarrow> 'a list \<Rightarrow> 'e + 'b list" where
  "map_e f [] = Inr []"
| "map_e f (x # xs) = then_e (f x) (\<lambda>y. then_e (map_e f xs) (\<lambda>ys. Inr (y # ys)))"

text \<open>\<^verbatim>\<open>s.fillna(v)\<close> replaces the missing cells.\<close>

definition fillna :: "cell \<Rightarrow> column \<Rightarrow> column" where
  "fillna v col = map (\<lambda>c. if c = NaN then v else c) col"

text \<open>
  \<^verbatim>\<open>+\<close> on two cells: strings concatenate, numbers add, a missing operand gives a
  missing result, and a string with a number is a \<^verbatim>\<open>TypeError\<close>.
\<close>

fun add_cell :: "cell \<Rightarrow> cell \<Rightarrow> pyerr + cell" where
  "add_cell (Str a) (Str b) = Inr (Str (a @ b))"
| "add_cell (Num a) (Num b) = Inr (Num (a + b))"
| "add_cell NaN b = Inr NaN"
| "add_cell a NaN = Inr NaN"
| "add_cell a b = Inl TypeError"

text \<open>\<^verbatim>\<open>s + ' '\<close>: a column and a scalar string.\<close>

definition add_scalar :: "column \<Rightarrow> string \<Rightarrow> pyerr + column" where
  "add_scalar col s = map_e (\<lambda>c. add_cell c (Str s)) col"

text \<open>
  \<^verbatim>\<open>s + t\<close>: two columns, row by row; rows that only one of them has come out
  missing.
\<close>

fun add_cols :: "column \<Rightarrow> column \<Rightarrow> pyerr + column" where
  "add_cols [] bs = Inr (map (\<lambda>b. NaN) bs)"
| "add_cols (a # as) [] = Inr (map (\<lambda>a. NaN) (a # as))"
| "add_cols (a # as) (b # bs) =
     then_e (add_cell a b) (\<lambda>c. then_e (add_cols as bs) (\<lambda>cs. Inr (c # cs)))"

definition notna :: "column \<Rightarrow> bool list" where
  "notna col = map (\<lambda>c. c \<noteq> NaN) col"

definition astype_int :: "bool list \<Rightarrow> column" where
  "astype_int bs = map (\<lambda>b. Num (if b then 1 else 0)) bs"

text \<open>
  \<^verbatim>\<open>s.map(d)\<close> with a dictionary keyed by strings: a cell that is not a key of the
  dictionary (a missing cell and a number among them) comes out missing.
\<close>

definition map_dict :: "(string \<times> int) list \<Rightarrow> column \<Rightarrow> column" where
  "map_dict d col =
     map (\<lambda>c. case c of
                Str s \<Rightarrow> (case map_of d s of None \<Rightarrow> NaN | Some v \<Rightarrow> Num v)
              | _ \<Rightarrow> NaN) col"

text \<open>
  The \<^verbatim>\<open>.str\<close> accessor raises \<^verbatim>\<open>AttributeError\<close> on a column that does not
  hold strings. A column that \<^verbatim>\<open>read_csv\<close> loaded holds strings when at least
  one of its cells is a string or when the table has no rows; a column whose fields
  are all empty is loaded as a column of floats.
\<close>

fun is_str :: "cell \<Rightarrow> bool" where
  "is_str (Str s) = True"
| "is_str c = False"

definition str_accessor :: "column \<Rightarrow> pyerr + column" where
  "str_accessor col =
     (if col = [] \<or> list_ex is_str col then Inr col else Inl AttributeError)"

text \<open>
  \<^verbatim>\<open>str.lower\<close> on one character: the capital letters of ASCII and of Latin-1 move
  up by 32.
\<close>

definition py_lower_char :: "char \<Rightarrow> char" where
  "py_lower_char c =
     (let n = (of_char c :: nat)
      in if (65 \<le> n \<and> n \<le> 90) \<or> (192 \<le> n \<and> n \<le> 214) \<or> (216 \<le> n \<and> n \<le> 222)
         then char_of (n + 32) else c)"

definition py_lower :: "string \<Rightarrow> string" where
  "py_lower s = map py_lower_char s"

fun starts_with :: "string \<Rightarrow> string \<Rightarrow> bool" where
  "starts_with [] s = True"
| "starts_with (p # ps) [] = False"
| "starts_with (p # ps) (c # s) = (p = c \<and> starts_with ps s)"

fun contains :: "string \<Rightarrow> string \<Rightarrow> bool" where
  "contains pat [] = (pat = [])"
| "contains pat (c # s) = (starts_with pat (c # s) \<or> contains pat s)"

text \<open>
  \<^verbatim>\<open>s.str.contains('a|b|c', case=False, na=False)\<close> for a pattern that is an
  alternation of lower-case words: a string cell matches when one of the words occurs
  in it, letter case ignored; any other cell counts as no match.
\<close>

definition str_contains :: "string list \<Rightarrow> column \<Rightarrow> pyerr + bool list" where
  "str_contains alts col =
     then_e (str_accessor col) (\<lambda>col.
       Inr (map (\<lambda>c. case c of
                        Str s \<Rightarrow> list_ex (\<lambda>a. contains a (py_lower s)) alts
                      | _ \<Rightarrow> False) col))"

text \<open>\<^verbatim>\<open>s.str[:n]\<close>: the first \<open>n\<close> characters of a string cell; any other cell is missing.\<close>

definition str_slice :: "nat \<Rightarrow> column \<Rightarrow> pyerr + column" where
  "str_slice n col =
     then_e (str_accessor col) (\<lambda>col.
       Inr (map (\<lambda>c. case c of Str s \<Rightarrow> Str (take n s) | _ \<Rightarrow> NaN) col))"

section \<open>Loading the training table (\<^verbatim>\<open>load_data\<close>)\<close>

text \<open>
  The strings that \<^verbatim>\<open>pandas.read_csv\<close>, called with its default arguments,
  reads as a missing value.
\<close>

definition default_na_values :: "string list" where
  "default_na_values =
     ['''', ''#N/A'', ''#N/A N/A'', ''#NA'', ''-1.#IND'', ''-1.#QNAN'', ''-NaN'', ''-nan'',
      ''1.#IND'', ''1.#QNAN'', ''<NA>'', ''N/A'', ''NA'', ''NULL'', ''NaN'', ''None'',
      ''n/a'', ''nan'', ''null'']"

text \<open>One field of a column of strings as loaded.\<close>

definition read_field :: "string \<Rightarrow> cell" where
  "read_field s = (if s \<in> set default_na_values then NaN else Str s)"

text \<open>A decimal integer: digits, after an optional minus sign.\<close>

fun digits_value :: "string \<Rightarrow> nat \<Rightarrow> nat option" where
  "digits_value [] acc = Some acc"
| "digits_value (c # s) acc =
     (let n = (of_char c :: nat)
      in if 48 \<le> n \<and> n \<le> 57 then digits_value s (10 * acc + (n - 48)) else None)"

definition int_literal :: "string \<Rightarrow> int option" where
  "int_literal s =
     (case s of
        [] \<Rightarrow> None
      | c # r \<Rightarrow>
          if c = CHR ''-''
          then (if r = [] then None else map_option (\<lambda>n. - int n) (digits_value r 0))
          else map_option int (digits_value s 0))"

text \<open>
  One column as loaded: numbers when every field is missing or a decimal integer,
  strings otherwise. (Fields in another number format are kept as strings here; no
  statement below depends on them.)
\<close>

definition read_column :: "string list \<Rightarrow> column" where
  "read_column raw =
     (if list_all (\<lambda>s. s \<in> set default_na_values \<or> int_literal s \<noteq> None) raw
      then map (\<lambda>s. case int_literal s of Some i \<Rightarrow> Num i | None \<Rightarrow> NaN) raw
      else map read_field raw)"

text \<open>
  \<^verbatim>\<open>data/training_data.csv\<close>: absent, present but rejected by \<^verbatim>\<open>read_csv\<close>
  (an empty or ragged file), or a table given by its header labels and, under each, the
  fields of the data rows.
\<close>

datatype csv_file = NoFile | Unparsable | Table "(string \<times> string list) list"

definition read_csv :: "(string \<times> string list) list \<Rightarrow> frame" where
  "read_csv t = map (\<lambda>(k, raw). (k, read_column raw)) t"

datatype tmsg =
    Banner
  | CsvNotFound
  | Loaded nat
  | LowData nat
  | ConfirmPrompt
  | Preparing
  | SavedTo string
  | Finished

text \<open>Both trainers have the same \<^verbatim>\<open>load_data\<close>; \<open>None\<close> is Python's \<^verbatim>\<open>None\<close>.\<close>

definition load_data :: "csv_file \<Rightarrow> tmsg list \<times> (pyerr + frame option)" where
  "load_data f =
     (case f of
        NoFile \<Rightarrow> ([CsvNotFound], Inr None)
      | Unparsable \<Rightarrow> ([], Inl ParserError)
      | Table t \<Rightarrow> (let df = read_csv t in ([Loaded (frame_len df)], Inr (Some df))))"

section \<open>The feature builder (\<^verbatim>\<open>extract_features\<close>, \<^verbatim>\<open>prepare_data\<close>)\<close>

definition severity_map :: "(string \<times> int) list" where
  "severity_map =
     [(''CRITICAL'', 4), (''HIGH'', 3), (''MEDIUM'', 2), (''LOW'', 1), (''INFO'', 0)]"

text \<open>
  \<^verbatim>\<open>extract_features\<close> of \<^verbatim>\<open>train_naive_bayes.py\<close>, statement by statement. The
  function assigns the five new columns on the table it was given and returns that
  table: the argument is the state of the table object before the call and the result
  its state after.
\<close>

definition extract_features :: "frame \<Rightarrow> pyerr + frame" where
  "extract_features df =
     then_e (getcol df ''name'') (\<lambda>n.
     then_e (add_scalar (fillna (Str []) n) '' '') (\<lambda>t1.
     then_e (getcol df ''description'') (\<lambda>d.
     then_e (add_cols t1 (fillna (Str []) d)) (\<lambda>t2.
     then_e (add_scalar t2 '' '') (\<lambda>t3.
     then_e (getcol df ''message'') (\<lambda>m.
     then_e (add_cols t3 (fillna (Str []) m)) (\<lambda>text.
     let df = setcol df ''text'' text in
     then_e (getcol df ''cve'') (\<lambda>cve.
     let df = setcol df ''has_cve'' (astype_int (notna cve)) in
     then_e (getcol df ''cwe'') (\<lambda>cwe.
     let df = setcol df ''has_cwe'' (astype_int (notna cwe)) in
     then_e (getcol df ''severity'') (\<lambda>sev.
     let df = setcol df ''severity_numeric'' (fillna (Num 2) (map_dict severity_map sev)) in
     then_e (getcol df ''file'') (\<lambda>f.
     then_e (str_contains [''test'', ''spec'', ''example''] f) (\<lambda>hits.
     let df = setcol df ''is_test_file'' (astype_int hits) in
     Inr df))))))))))))"

text \<open>\<^verbatim>\<open>prepare_data\<close> of \<^verbatim>\<open>train_bert.py\<close>.\<close>

definition prepare_data :: "frame \<Rightarrow> pyerr + frame" where
  "prepare_data df =
     then_e (getcol df ''name'') (\<lambda>n.
     then_e (add_scalar (fillna (Str []) n) '' [SEP] '') (\<lambda>t1.
     then_e (getcol df ''description'') (\<lambda>d.
     then_e (add_cols t1 (fillna (Str []) d)) (\<lambda>t2.
     then_e (add_scalar t2 '' [SEP] '') (\<lambda>t3.
     then_e (getcol df ''message'') (\<lambda>m.
     then_e (add_cols t3 (fillna (Str []) m)) (\<lambda>text.
     let df = setcol df ''text'' text in
     then_e (getcol df ''text'') (\<lambda>text.
     then_e (str_slice 500 text) (\<lambda>cut.
     let df = setcol df ''text'' cut in
     Inr df)))))))))"




section \<open>The classical trainer (\<^verbatim>\<open>train_naive_bayes.py\<close>)\<close>

text \<open>
  The directory \<^verbatim>\<open>models/\<close> maps a path to what the file holds: a complete pickle
  of an object, or the beginning of one (\<open>Partial\<close>), which cannot be loaded. Opening a
  file with mode \<^verbatim>\<open>'wb'\<close> empties it.
\<close>

datatype 'a stored = Partial | Whole 'a

datatype ('m, 'v) pickled = Classifier 'm | Vectorizer 'v

type_synonym ('m, 'v) models_dir = "string \<Rightarrow> ('m, 'v) pickled stored option"

text \<open>
  The operating system decides whether a write succeeds. \<open>save_fault\<close> names the
  operation of lines 107 to 116 that raises \<^verbatim>\<open>OSError\<close>, if one does.
\<close>

datatype save_fault =
    NoFault
  | MakedirsFails
  | OpenModelFails
  | DumpModelFails
  | OpenVectorizerFails
  | DumpVectorizerFails

definition model_file :: string where
  "model_file = ''models/naive_bayes.pkl''"

definition vectorizer_file :: string where
  "vectorizer_file = ''models/vectorizer.pkl''"

text \<open>
  Lines 107 to 116 of \<^verbatim>\<open>train_model\<close>: the classifier is pickled first, then the
  vectorizer, each into its own file. No statement catches an exception or removes a
  file.
\<close>

definition save_model_and_vectorizer ::
  "save_fault \<Rightarrow> ('m, 'v) models_dir \<Rightarrow> 'm \<Rightarrow> 'v \<Rightarrow> pyerr option \<times> ('m, 'v) models_dir" where
  "save_model_and_vectorizer fault fs model vectorizer =
     (if fault = MakedirsFails then (Some OSError, fs)
      else if fault = OpenModelFails then (Some OSError, fs)
      else let fs = fs(model_file \<mapsto> Partial) in
      if fault = DumpModelFails then (Some OSError, fs)
      else let fs = fs(model_file \<mapsto> Whole (Classifier model)) in
      if fault = OpenVectorizerFails then (Some OSError, fs)
      else let fs = fs(vectorizer_file \<mapsto> Partial) in
      if fault = DumpVectorizerFails then (Some OSError, fs)
      else (None, fs(vectorizer_file \<mapsto> Whole (Vectorizer vectorizer))))"

text \<open>
  \<^verbatim>\<open>train_model\<close>. Lines 64 to 104 (vectorizing, the split, fitting and the
  evaluation report) run inside scikit-learn; \<open>fit\<close> stands for them and gives the
  fitted classifier and vectorizer, or the exception they raise. The result is what the
  script itself printed, the returned pair or the exception, and \<^verbatim>\<open>models/\<close>
  afterwards.
\<close>

definition train_model ::
  "(frame \<Rightarrow> pyerr + 'm \<times> 'v) \<Rightarrow> save_fault \<Rightarrow> ('m, 'v) models_dir \<Rightarrow> frame
     \<Rightarrow> tmsg list \<times> (pyerr + 'm \<times> 'v) \<times> ('m, 'v) models_dir" where
  "train_model fit fault fs df =
     (case extract_features df of
        Inl e \<Rightarrow> ([Preparing], Inl e, fs)
      | Inr df \<Rightarrow>
          (case fit df of
             Inl e \<Rightarrow> ([Preparing], Inl e, fs)
           | Inr (model, vectorizer) \<Rightarrow>
               (case save_model_and_vectorizer fault fs model vectorizer of
                  (Some e, fs) \<Rightarrow> ([Preparing], Inl e, fs)
                | (None, fs) \<Rightarrow>
                    ([Preparing, SavedTo model_file, SavedTo vectorizer_file],
                     Inr (model, vectorizer), fs))))"

text \<open>
  What a run of a trainer can read and change: the training file, \<^verbatim>\<open>models/\<close>
  and the lines waiting on standard input (\<^verbatim>\<open>input()\<close> takes the first, and
  raises \<^verbatim>\<open>EOFError\<close> when there is none).
\<close>

record 'd world =
  training_data_csv :: csv_file
  models :: 'd
  stdin :: "string list"

text \<open>
  \<^verbatim>\<open>main\<close>. Lines 138 to 146 print the class distribution; \<open>report\<close> stands for
  them and says whether they raise.
\<close>

definition main ::
  "(frame \<Rightarrow> pyerr option) \<Rightarrow> (frame \<Rightarrow> pyerr + 'm \<times> 'v) \<Rightarrow> save_fault
     \<Rightarrow> ('m, 'v) models_dir world \<Rightarrow> tmsg list \<times> pyerr option \<times> ('m, 'v) models_dir world" where
  "main report fit fault w =
     (case load_data (training_data_csv w) of
        (out, Inl e) \<Rightarrow> (Banner # out, Some e, w)
      | (out, Inr None) \<Rightarrow> (Banner # out, None, w)
      | (out, Inr (Some df)) \<Rightarrow>
          (let proceed = (\<lambda>out w.
                 case report df of
                   Some e \<Rightarrow> (out, Some e, w)
                 | None \<Rightarrow>
                     (case train_model fit fault (models w) df of
                        (out', Inl e, fs) \<Rightarrow> (out @ out', Some e, w\<lparr>models := fs\<rparr>)
                      | (out', Inr r, fs) \<Rightarrow>
                          (out @ out' @ [Finished], None, w\<lparr>models := fs\<rparr>)))
           in if frame_len df < 50
              then (let out = Banner # out @ [LowData (frame_len df), ConfirmPrompt]
                    in case stdin w of
                         [] \<Rightarrow> (out, Some EOFError, w)
                       | answer # rest \<Rightarrow>
                           if py_lower answer \<noteq> ''s'' then (out, None, w\<lparr>stdin := rest\<rparr>)
                           else proceed out (w\<lparr>stdin := rest\<rparr>))
              else proceed (Banner # out) w))"

section \<open>The transformer trainer (\<^verbatim>\<open>train_bert.py\<close>)\<close>

text \<open>
  \<^verbatim>\<open>train_bert\<close>. Lines 84 to 178 (the split, tokenizing, fine-tuning and saving
  under \<^verbatim>\<open>models/bert_model\<close>) run inside scikit-learn and the transformer library;
  \<open>finetune\<close> stands for them and gives \<^verbatim>\<open>models/\<close> afterwards and the exception
  if they raise.
\<close>

definition train_bert ::
  "(frame \<Rightarrow> 'd \<Rightarrow> pyerr option \<times> 'd) \<Rightarrow> 'd world \<Rightarrow> tmsg list \<times> pyerr option \<times> 'd world" where
  "train_bert finetune w =
     (case load_data (training_data_csv w) of
        (out, Inl e) \<Rightarrow> (Banner # out, Some e, w)
      | (out, Inr None) \<Rightarrow> (Banner # out, None, w)
      | (out, Inr (Some df)) \<Rightarrow>
          (let proceed = (\<lambda>out w.
                 case prepare_data df of
                   Inl e \<Rightarrow> (out @ [Preparing], Some e, w)
                 | Inr df \<Rightarrow>
                     (case finetune df (models w) of
                        (Some e, fs) \<Rightarrow> (out @ [Preparing], Some e, w\<lparr>models := fs\<rparr>)
                      | (None, fs) \<Rightarrow>
                          (out @ [Preparing, SavedTo ''./models/bert_model'', Finished], None,
                           w\<lparr>models := fs\<rparr>)))
           in if frame_len df < 100
              then (let out = Banner # out @ [LowData (frame_len df), ConfirmPrompt]
                    in case stdin w of
                         [] \<Rightarrow> (out, Some EOFError, w)
                       | answer # rest \<Rightarrow>
                           if py_lower answer \<noteq> ''s'' then (out, None, w\<lparr>stdin := rest\<rparr>)
                           else proceed out (w\<lparr>stdin := rest\<rparr>))
              else proceed (Banner # out) w))"

section \<open>Reference descriptions\<close>

text \<open>
  The specification's wording of the derived columns, against which the feature builder
  is compared: the string a cell contributes to the joined text (nothing when it is
  missing), the joined text of a row, and the ordinal value of a severity.
\<close>

fun cell_text :: "cell \<Rightarrow> string" where
  "cell_text (Str s) = s"
| "cell_text c = []"

fun is_num :: "cell \<Rightarrow> bool" where
  "is_num (Num i) = True"
| "is_num c = False"

definition join_text :: "string \<Rightarrow> column \<Rightarrow> column \<Rightarrow> column \<Rightarrow> string list" where
  "join_text sep n d m =
     map (\<lambda>(a, b, c). cell_text a @ sep @ cell_text b @ sep @ cell_text c) (zip n (zip d m))"


text \<open>The operator's confirmation: the next line on standard input is \<^verbatim>\<open>s\<close> or \<^verbatim>\<open>S\<close>.\<close>

definition confirmed :: "string list \<Rightarrow> bool" where
  "confirmed lines = (case lines of [] \<Rightarrow> False | answer # rest \<Rightarrow> answer = ''s'' \<or> answer = ''S'')"

section \<open>Sample inputs\<close>

text \<open>
  A history with one analysis and one finding, which the earlier prediction marked as
  a real threat, and a feedback export in which an operator marked the same finding as
  a false positive.
\<close>

definition history_example :: json where
  "history_example =
     JArr [JObj [(''result'', JObj [(''vulnerabilities'', JArr [
       JObj [(''original'',
                JObj [(''name'', JStr ''SQL Injection''), (''severity'', JStr ''HIGH'')]),
             (''mlPrediction'', JObj [(''isRealThreat'', JBool True)])]])])]]"

definition feedback_example :: json where
  "feedback_example =
     JArr [JObj [(''name'', JStr ''SQL Injection''), (''isRealThreat'', JBool False)]]"

definition collector_example :: collector_files where
  "collector_example =
     \<lparr> history_json = Content history_example, feedback_json = Content feedback_example,
       training_csv = None \<rparr>"

text \<open>A training file with two records; the second has \<^verbatim>\<open>NA\<close> in its CVE field.\<close>

definition csv_example :: "(string \<times> string list) list" where
  "csv_example =
     [(''name'', [''SQL Injection'', '''']),
      (''description'', [''Unsanitised input'', ''Old API'']),
      (''severity'', [''HIGH'', ''unknown'']),
      (''cve'', [''CVE-2021-1'', ''NA'']),
      (''cwe'', ['''', ''CWE-89'']),
      (''file'', [''src/db.py'', ''tests/Test_api.py'']),
      (''line'', [''10'', ''3'']),
      (''message'', [''query built by concatenation'', '''']),
      (''is_real_threat'', [''1'', ''0''])]"

text \<open>The table it loads as, and that table after \<^verbatim>\<open>extract_features\<close>.\<close>

definition frame_example :: frame where
  "frame_example =
     [(''name'', [Str ''SQL Injection'', NaN]),
      (''description'', [Str ''Unsanitised input'', Str ''Old API'']),
      (''severity'', [Str ''HIGH'', Str ''unknown'']),
      (''cve'', [Str ''CVE-2021-1'', NaN]),
      (''cwe'', [NaN, Str ''CWE-89'']),
      (''file'', [Str ''src/db.py'', Str ''tests/Test_api.py'']),
      (''line'', [Num 10, Num 3]),
      (''message'', [Str ''query built by concatenation'', NaN]),
      (''is_real_threat'', [Num 1, Num 0])]"

definition features_example :: frame where
  "features_example =
     frame_example @
     [(''text'', [Str ''SQL Injection Unsanitised input query built by concatenation'',
                  Str '' Old API '']),
      (''has_cve'', [Num 1, Num 0]),
      (''has_cwe'', [Num 0, Num 1]),
      (''severity_numeric'', [Num 3, Num 2]),
      (''is_test_file'', [Num 0, Num 1])]"

text \<open>A table with one record whose name has 501 characters.\<close>

definition long_name_frame :: frame where
  "long_name_frame =
     [(''name'', [Str (replicate 501 (CHR ''a''))]),
      (''description'', [Str ''d'']),
      (''severity'', [Str ''LOW'']),
      (''cve'', [NaN]),
      (''cwe'', [Str ''CWE-1'']),
      (''file'', [Str ''a.py'']),
      (''line'', [Num 1]),
      (''message'', [Str ''m'']),
      (''is_real_threat'', [Num 1])]"


text \<open>
  A run of the trainers: nothing under \<^verbatim>\<open>models/\<close> yet, a distribution report that
  does not raise, and a fit that returns the classifier and the vectorizer numbered 2.
\<close>

definition example_world :: "csv_file \<Rightarrow> string list \<Rightarrow> (nat, nat) models_dir world" where
  "example_world f lines = \<lparr> training_data_csv = f, models = Map.empty, stdin = lines \<rparr>"

definition example_report :: "frame \<Rightarrow> pyerr option" where
  "example_report df = None"

definition example_fit :: "frame \<Rightarrow> pyerr + nat \<times> nat" where
  "example_fit df = Inr (2, 2)"

definition example_finetune ::
  "frame \<Rightarrow> (nat, nat) models_dir \<Rightarrow> pyerr option \<times> (nat, nat) models_dir" where
  "example_finetune df fs = (None, fs)"

text \<open>\<^verbatim>\<open>models/\<close> holding the classifier and the vectorizer of an earlier fit, numbered 1.\<close>

definition old_models :: "(nat, nat) models_dir" where
  "old_models =
     [model_file \<mapsto> Whole (Classifier 1), vectorizer_file \<mapsto> Whole (Vectorizer 1)]"

section \<open>Properties of the record collector\<close>

lemma then_e_Inr [simp]: "then_e (Inr x) f = f x"
  by (simp add: then_e_def)

lemma then_e_Inl [simp]: "then_e (Inl e) f = Inl e"
  by (simp add: then_e_def)

lemma then_e_eq_Inr: "then_e m f = Inr y \<longleftrightarrow> (\<exists>x. m = Inr x \<and> f x = Inr y)"
  by (cases m) simp_all

lemma collect_from_feedback_no_raise:
  "fb \<noteq> Malformed \<Longrightarrow> \<exists>out feedbacks. collect_from_feedback fb = (out, Inr feedbacks)"
  by (cases fb) (simp_all add: collect_from_feedback_def)

lemma create_training_csv_rows:
  assumes "fb \<noteq> Malformed"
  shows "training_csv (snd (snd (create_training_csv (fs\<lparr>feedback_json := fb\<rparr>)))) =
           (case snd (collect_from_history (history_json fs)) of
              Inl e \<Rightarrow> training_csv fs
            | Inr history_data \<Rightarrow>
                if history_data \<noteq> [] then Some history_data else training_csv fs)"
proof -
  obtain out feedbacks where fb: "collect_from_feedback fb = (out, Inr feedbacks)"
    using collect_from_feedback_no_raise [OF assms] by blast
  obtain out1 r where h: "collect_from_history (history_json fs) = (out1, r)"
    by (cases "collect_from_history (history_json fs)")
  show ?thesis
    by (cases r) (simp_all add: create_training_csv_def h fb Let_def)
qed

text \<open>
  The label of a row is the truth value of \<^verbatim>\<open>mlPrediction.isRealThreat\<close>, or 1 when
  the key is absent; nothing else of the finding, and no other file, enters it.
\<close>

lemma vuln_record_label:
  assumes "vuln_record vuln = Inr r"
  shows "\<exists>ml_pred v. py_get vuln ''mlPrediction'' (JObj []) = Inr ml_pred \<and>
           py_get ml_pred ''isRealThreat'' (JBool True) = Inr v \<and>
           is_real_threat r = (if truthy v then 1 else 0)"
  using assms unfolding vuln_record_def then_e_eq_Inr by auto

text \<open>
  C1. The label of a flattened finding should come from human feedback when there is
  some, from \<^verbatim>\<open>mlPrediction.isRealThreat\<close> otherwise, and default to 1. On the sample
  input the operator's feedback says false positive, and the row written to the
  training file carries the prediction's label 1: the feedback is not consulted.
\<close>

theorem label_ignores_feedback_example:
  "create_training_csv collector_example =
     ([FeedbackInstructions, CsvCreated 1], None,
      collector_example\<lparr>training_csv := Some
        [\<lparr> name = JStr ''SQL Injection'', description = JStr [], severity = JStr ''HIGH'',
            cve = JStr [], cwe = JStr [], file_path = JStr [], line = JStr [],
            message = JStr [], is_real_threat = 1 \<rparr>]\<rparr>)"
  by (simp add: create_training_csv_def collector_example_def collect_from_history_def
      collect_from_feedback_def history_example_def feedback_example_def
      analysis_vulns_def vuln_record_def)

text \<open>
  C10, as the code has it. The rows written to \<^verbatim>\<open>data/training_data.csv\<close>
  depend on \<^verbatim>\<open>data/history.json\<close> only as long as \<^verbatim>\<open>data/feedback.json\<close> is
  absent or parses as JSON: two runs that differ in nothing but such a feedback file (no
  file, an empty list, or any feedback records) leave the same rows in the training file.
\<close>

theorem training_csv_independent_of_feedback:
  assumes "fb1 \<noteq> Malformed" and "fb2 \<noteq> Malformed"
  shows "training_csv (snd (snd (create_training_csv (fs\<lparr>feedback_json := fb1\<rparr>)))) =
         training_csv (snd (snd (create_training_csv (fs\<lparr>feedback_json := fb2\<rparr>))))"
  by (simp add: create_training_csv_rows [OF assms(1)] create_training_csv_rows [OF assms(2)])

theorem training_csv_independent_of_feedback_witness:
  "Absent \<noteq> Malformed \<and> Content feedback_example \<noteq> Malformed \<and>
   training_csv (snd (snd (create_training_csv (collector_example\<lparr>feedback_json := Absent\<rparr>)))) =
   training_csv (snd (snd (create_training_csv
     (collector_example\<lparr>feedback_json := Content feedback_example\<rparr>)))) \<and>
   training_csv (snd (snd (create_training_csv (collector_example\<lparr>feedback_json := Absent\<rparr>)))) =
     Some [\<lparr> name = JStr ''SQL Injection'', description = JStr [], severity = JStr ''HIGH'',
            cve = JStr [], cwe = JStr [], file_path = JStr [], line = JStr [],
            message = JStr [], is_real_threat = 1 \<rparr>]"
proof -
  have a: "Absent \<noteq> Malformed" and b: "Content feedback_example \<noteq> Malformed"
    by simp_all
  have "training_csv (snd (snd (create_training_csv (collector_example\<lparr>feedback_json := Absent\<rparr>)))) =
     Some [\<lparr> name = JStr ''SQL Injection'', description = JStr [], severity = JStr ''HIGH'',
            cve = JStr [], cwe = JStr [], file_path = JStr [], line = JStr [],
            message = JStr [], is_real_threat = 1 \<rparr>]"
    by (simp add: create_training_csv_def collector_example_def collect_from_history_def
        collect_from_feedback_def history_example_def analysis_vulns_def vuln_record_def)
  with a b training_csv_independent_of_feedback [OF a b, of collector_example]
  show ?thesis by simp
qed

text \<open>
  C10 as stated fails on a feedback file that \<^verbatim>\<open>json.load\<close> rejects, a file of zero
  bytes among them: with the same history, the run without a feedback file writes the
  row, and the run with the rejected file raises before the training file is opened and
  writes nothing.
\<close>

theorem rejected_feedback_file_blocks_csv:
  "training_csv (snd (snd (create_training_csv (collector_example\<lparr>feedback_json := Absent\<rparr>)))) =
     Some [\<lparr> name = JStr ''SQL Injection'', description = JStr [], severity = JStr ''HIGH'',
            cve = JStr [], cwe = JStr [], file_path = JStr [], line = JStr [],
            message = JStr [], is_real_threat = 1 \<rparr>] \<and>
   create_training_csv (collector_example\<lparr>feedback_json := Malformed\<rparr>) =
     ([FeedbackInstructions], Some JSONDecodeError,
      collector_example\<lparr>feedback_json := Malformed\<rparr>) \<and>
   training_csv (snd (snd (create_training_csv
     (collector_example\<lparr>feedback_json := Malformed\<rparr>)))) = None"
  by (simp add: create_training_csv_def collector_example_def collect_from_history_def
      collect_from_feedback_def history_example_def analysis_vulns_def vuln_record_def)

section \<open>Properties of tables\<close>

lemma getcol_setcol:
  "getcol (setcol df k c) k' = (if k' = k then Inr c else getcol df k')"
  by (induction df) (auto simp: getcol_def)


lemma add_scalar_fillna:
  "add_scalar (fillna (Str []) col) s =
     (if list_ex is_num col then Inl TypeError else Inr (map (\<lambda>c. Str (cell_text c @ s)) col))"
proof (induction col)
  case Nil
  then show ?case by (simp add: add_scalar_def fillna_def)
next
  case (Cons c col)
  then show ?case by (cases c) (auto simp: add_scalar_def fillna_def)
qed

lemma add_scalar_strs:
  "add_scalar (map Str xs) s = Inr (map (\<lambda>x. Str (x @ s)) xs)"
  by (induction xs) (simp_all add: add_scalar_def)

lemma add_cols_fillna:
  "length xs = length col \<Longrightarrow>
   add_cols (map Str xs) (fillna (Str []) col) =
     (if list_ex is_num col then Inl TypeError
      else Inr (map (\<lambda>(x, c). Str (x @ cell_text c)) (zip xs col)))"
proof (induction xs col rule: list_induct2)
  case Nil
  then show ?case by (simp add: fillna_def)
next
  case (Cons x xs c col)
  then show ?case by (cases c) (auto simp: fillna_def)
qed

text \<open>The four additions that build the text column, as one step.\<close>

lemma joined_text:
  assumes "length n = length d" and "length d = length m"
  shows "then_e (add_scalar (fillna (Str []) n) sep) (\<lambda>t1.
         then_e (add_cols t1 (fillna (Str []) d)) (\<lambda>t2.
         then_e (add_scalar t2 sep) (\<lambda>t3.
                 add_cols t3 (fillna (Str []) m)))) =
         (if list_ex is_num (n @ d @ m) then Inl TypeError
          else Inr (map Str (join_text sep n d m)))"
proof -
  have 1: "map (\<lambda>c. Str (cell_text c @ sep)) n = map Str (map (\<lambda>c. cell_text c @ sep) n)"
    by simp
  have 2: "map (\<lambda>(x, c). Str (x @ cell_text c)) (zip (map (\<lambda>c. cell_text c @ sep) n) d)
         = map Str (map (\<lambda>(a, b). cell_text a @ sep @ cell_text b) (zip n d))"
    by (simp add: zip_map1 case_prod_unfold)
  have 3: "map (\<lambda>x. Str (x @ sep)) (map (\<lambda>(a, b). cell_text a @ sep @ cell_text b) (zip n d))
         = map Str (map (\<lambda>(a, b). cell_text a @ sep @ cell_text b @ sep) (zip n d))"
    by (simp add: case_prod_unfold)
  have 4: "map (\<lambda>(x, c). Str (x @ cell_text c))
             (zip (map (\<lambda>(a, b). cell_text a @ sep @ cell_text b @ sep) (zip n d)) m)
         = map Str (join_text sep n d m)"
    using assms
    by (simp add: join_text_def zip_map1 case_prod_unfold zip_assoc zip_map2)
  show ?thesis
    using assms
    by (simp add: add_scalar_fillna 1 add_cols_fillna 2 add_scalar_strs 3 4 del: map_map)
qed




section \<open>Properties of the feature builder\<close>

lemma extract_features_result:
  assumes "extract_features df = Inr df'"
  obtains n d m t1 t2 t3 joined cve cwe sev f hits where
    "getcol df ''name'' = Inr n" and "getcol df ''description'' = Inr d" and
    "getcol df ''message'' = Inr m" and
    "add_scalar (fillna (Str []) n) '' '' = Inr t1" and
    "add_cols t1 (fillna (Str []) d) = Inr t2" and
    "add_scalar t2 '' '' = Inr t3" and
    "add_cols t3 (fillna (Str []) m) = Inr joined" and
    "getcol df ''cve'' = Inr cve" and "getcol df ''cwe'' = Inr cwe" and
    "getcol df ''severity'' = Inr sev" and "getcol df ''file'' = Inr f" and
    "str_contains [''test'', ''spec'', ''example''] f = Inr hits" and
    "df' = setcol (setcol (setcol (setcol (setcol df ''text'' joined)
             ''has_cve'' (astype_int (notna cve)))
             ''has_cwe'' (astype_int (notna cwe)))
             ''severity_numeric'' (fillna (Num 2) (map_dict severity_map sev)))
             ''is_test_file'' (astype_int hits)"
  using assms
  unfolding extract_features_def Let_def then_e_eq_Inr getcol_setcol
  by (auto split: if_splits)

lemma prepare_data_result:
  assumes "prepare_data df = Inr df'"
  obtains n d m t1 t2 t3 joined cut where
    "getcol df ''name'' = Inr n" and "getcol df ''description'' = Inr d" and
    "getcol df ''message'' = Inr m" and
    "add_scalar (fillna (Str []) n) '' [SEP] '' = Inr t1" and
    "add_cols t1 (fillna (Str []) d) = Inr t2" and
    "add_scalar t2 '' [SEP] '' = Inr t3" and
    "add_cols t3 (fillna (Str []) m) = Inr joined" and
    "str_slice 500 joined = Inr cut" and
    "df' = setcol (setcol df ''text'' joined) ''text'' cut"
  using assms
  unfolding prepare_data_def Let_def then_e_eq_Inr getcol_setcol
  by (auto split: if_splits)



lemma extract_features_example: "extract_features frame_example = Inr features_example"
  by code_simp

lemma read_csv_example: "read_csv csv_example = frame_example"
  by (simp add: read_csv_def csv_example_def frame_example_def read_column_def
      int_literal_def default_na_values_def read_field_def)

lemma joined_text_then:
  assumes "length n = length d" and "length d = length m"
  shows "then_e (add_scalar (fillna (Str []) n) sep) (\<lambda>t1.
         then_e (add_cols t1 (fillna (Str []) d)) (\<lambda>t2.
         then_e (add_scalar t2 sep) (\<lambda>t3.
         then_e (add_cols t3 (fillna (Str []) m)) k))) =
         (if list_ex is_num (n @ d @ m) then Inl TypeError
          else k (map Str (join_text sep n d m)))"
proof -
  have "then_e (add_scalar (fillna (Str []) n) sep) (\<lambda>t1.
         then_e (add_cols t1 (fillna (Str []) d)) (\<lambda>t2.
         then_e (add_scalar t2 sep) (\<lambda>t3.
         then_e (add_cols t3 (fillna (Str []) m)) k))) =
        then_e (then_e (add_scalar (fillna (Str []) n) sep) (\<lambda>t1.
         then_e (add_cols t1 (fillna (Str []) d)) (\<lambda>t2.
         then_e (add_scalar t2 sep) (\<lambda>t3.
                 add_cols t3 (fillna (Str []) m))))) k"
    by (simp add: then_e_def split: sum.splits)
  then show ?thesis
    by (simp add: joined_text [OF assms])
qed

lemma str_slice_strs: "str_slice n (map Str xs) = Inr (map (\<lambda>s. Str (take n s)) xs)"
  by (cases xs) (simp_all add: str_slice_def str_accessor_def)

lemma extract_features_text:
  assumes "extract_features df = Inr df'"
    and "getcol df ''name'' = Inr n" and "getcol df ''description'' = Inr d"
    and "getcol df ''message'' = Inr m"
    and "length n = length d" and "length d = length m"
  shows "getcol df' ''text'' = Inr (map Str (join_text '' '' n d m))"
proof -
  from assms(1) show ?thesis
  proof (rule extract_features_result)
    fix n' d' m' t1 t2 t3 joined cve cwe sev f hits
    assume a: "getcol df ''name'' = Inr n'" "getcol df ''description'' = Inr d'"
      "getcol df ''message'' = Inr m'"
      "add_scalar (fillna (Str []) n') '' '' = Inr t1"
      "add_cols t1 (fillna (Str []) d') = Inr t2"
      "add_scalar t2 '' '' = Inr t3"
      "add_cols t3 (fillna (Str []) m') = Inr joined"
      and df': "df' = setcol (setcol (setcol (setcol (setcol df ''text'' joined)
             ''has_cve'' (astype_int (notna cve)))
             ''has_cwe'' (astype_int (notna cwe)))
             ''severity_numeric'' (fillna (Num 2) (map_dict severity_map sev)))
             ''is_test_file'' (astype_int hits)"
    from a assms have eq: "n' = n" "d' = d" "m' = m" by simp_all
    have "then_e (add_scalar (fillna (Str []) n) '' '') (\<lambda>t1.
         then_e (add_cols t1 (fillna (Str []) d)) (\<lambda>t2.
         then_e (add_scalar t2 '' '') (\<lambda>t3.
                 add_cols t3 (fillna (Str []) m)))) = Inr joined"
      using a(4-7) by (simp add: eq)
    then have "joined = map Str (join_text '' '' n d m)"
      by (simp add: joined_text [OF assms(5,6)] split: if_splits)
    then show ?thesis by (simp add: df' getcol_setcol)
  qed
qed

lemma prepare_data_text:
  assumes "getcol df ''name'' = Inr n" and "getcol df ''description'' = Inr d"
    and "getcol df ''message'' = Inr m"
    and "length n = length d" and "length d = length m"
    and "\<not> list_ex is_num (n @ d @ m)"
  shows "prepare_data df =
           Inr (setcol df ''text'' (map (\<lambda>s. Str (take 500 s)) (join_text '' [SEP] '' n d m)))"
proof -
  have idem: "setcol (setcol df k a) k b = setcol df k b" for k a b
    by (induction df) auto
  show ?thesis
    using assms(6)
    by (simp add: prepare_data_def assms(1-3) joined_text_then [OF assms(4,5)] Let_def
        getcol_setcol str_slice_strs idem)
qed

lemma extract_features_long_name:
  "extract_features long_name_frame =
     Inr (long_name_frame @
       [(''text'', [Str (replicate 501 (CHR ''a'') @ '' d m'')]),
        (''has_cve'', [Num 0]), (''has_cwe'', [Num 1]),
        (''severity_numeric'', [Num 1]), (''is_test_file'', [Num 0])])"
  by (simp add: extract_features_def long_name_frame_def getcol_def fillna_def add_scalar_def
      notna_def astype_int_def map_dict_def severity_map_def str_contains_def
      str_accessor_def py_lower_def py_lower_char_def Let_def)



text \<open>
  C3, as the code has it. For every record the transformer backend's text, the join of
  \<^verbatim>\<open>name\<close>, \<^verbatim>\<open>description\<close> and \<^verbatim>\<open>message\<close> with \<^verbatim>\<open>' [SEP] '\<close> and a missing
  field read as the empty string, is cut to its first 500 characters, and a text longer
  than that is cut, not rejected: \<^verbatim>\<open>prepare_data\<close> returns whenever the three columns
  exist and hold no numbers. The classical backend's text is the whole join of the three
  fields with single spaces; it is not cut.
\<close>

theorem text_truncation:
  assumes "getcol df ''name'' = Inr n" and "getcol df ''description'' = Inr d"
    and "getcol df ''message'' = Inr m"
    and "length n = length d" and "length d = length m"
    and "\<not> list_ex is_num (n @ d @ m)"
  shows "(\<exists>df' cut. prepare_data df = Inr df' \<and> getcol df' ''text'' = Inr cut \<and>
            cut = map (\<lambda>s. Str (take 500 s)) (join_text '' [SEP] '' n d m) \<and>
            (\<forall>c \<in> set cut. length (cell_text c) \<le> 500)) \<and>
         (\<forall>df'. extract_features df = Inr df' \<longrightarrow>
            getcol df' ''text'' = Inr (map Str (join_text '' '' n d m)))"
proof (intro conjI allI impI)
  show "\<exists>df' cut. prepare_data df = Inr df' \<and> getcol df' ''text'' = Inr cut \<and>
            cut = map (\<lambda>s. Str (take 500 s)) (join_text '' [SEP] '' n d m) \<and>
            (\<forall>c \<in> set cut. length (cell_text c) \<le> 500)"
    by (auto simp: prepare_data_text [OF assms] getcol_setcol)
next
  fix df'
  assume "extract_features df = Inr df'"
  then show "getcol df' ''text'' = Inr (map Str (join_text '' '' n d m))"
    by (rule extract_features_text) (rule assms)+
qed

theorem text_truncation_witness:
  "getcol long_name_frame ''name'' = Inr [Str (replicate 501 (CHR ''a''))] \<and>
   getcol long_name_frame ''description'' = Inr [Str ''d''] \<and>
   getcol long_name_frame ''message'' = Inr [Str ''m''] \<and>
   \<not> list_ex is_num ([Str (replicate 501 (CHR ''a''))] @ [Str ''d''] @ [Str ''m'']) \<and>
   then_e (prepare_data long_name_frame) (\<lambda>df. getcol df ''text'') =
     Inr [Str (replicate 500 (CHR ''a''))] \<and>
   then_e (extract_features long_name_frame) (\<lambda>df. getcol df ''text'') =
     Inr [Str (replicate 501 (CHR ''a'') @ '' d m'')]"
proof -
  have n: "getcol long_name_frame ''name'' = Inr [Str (replicate 501 (CHR ''a''))]"
    and d: "getcol long_name_frame ''description'' = Inr [Str ''d'']"
    and m: "getcol long_name_frame ''message'' = Inr [Str ''m'']"
    by (simp_all add: long_name_frame_def getcol_def)
  have l: "length [Str (replicate 501 (CHR ''a''))] = length [Str ''d'']"
    "length [Str ''d''] = length [Str ''m'']"
    by simp_all
  have nn: "\<not> list_ex is_num ([Str (replicate 501 (CHR ''a''))] @ [Str ''d''] @ [Str ''m''])"
    by simp
  note t = text_truncation [OF n d m l nn]
  from t obtain df' where p: "prepare_data long_name_frame = Inr df'"
    and c: "getcol df' ''text'' =
        Inr (map (\<lambda>s. Str (take 500 s)) (join_text '' [SEP] ''
          [Str (replicate 501 (CHR ''a''))] [Str ''d''] [Str ''m'']))"
    by blast
  from t extract_features_long_name
  have e: "then_e (extract_features long_name_frame) (\<lambda>df. getcol df ''text'') =
     Inr (map Str (join_text '' ''
          [Str (replicate 501 (CHR ''a''))] [Str ''d''] [Str ''m'']))"
    by simp
  show ?thesis
    using n d m nn p c e by (simp add: join_text_def)
qed

text \<open>
  C3 as stated fails for the classical backend: a record whose name has 501 characters
  gets a text field of 505 characters from \<^verbatim>\<open>extract_features\<close>.
\<close>

theorem classical_text_not_truncated:
  "then_e (extract_features long_name_frame) (\<lambda>df. getcol df ''text'') =
     Inr [Str (replicate 501 (CHR ''a'') @ '' d m'')] \<and>
   length (replicate 501 (CHR ''a'') @ '' d m'') = 505"
  by (simp add: extract_features_long_name) (simp add: getcol_def long_name_frame_def)









section \<open>Properties of the trainers\<close>

lemma py_lower_char_s: "py_lower_char c = CHR ''s'' \<longleftrightarrow> c = CHR ''s'' \<or> c = CHR ''S''"
proof -
  have up: "(char_of (83::nat) :: char) = CHR ''S''" and lo: "(char_of (115::nat) :: char) = CHR ''s''"
    by code_simp+
  show ?thesis
  proof
    assume a: "py_lower_char c = CHR ''s''"
    show "c = CHR ''s'' \<or> c = CHR ''S''"
    proof (cases "(65 \<le> (of_char c :: nat) \<and> (of_char c :: nat) \<le> 90) \<or>
        (192 \<le> (of_char c :: nat) \<and> (of_char c :: nat) \<le> 214) \<or>
        (216 \<le> (of_char c :: nat) \<and> (of_char c :: nat) \<le> 222)")
      case True
      with a have "char_of ((of_char c :: nat) + 32) = CHR ''s''"
        by (simp add: py_lower_char_def Let_def)
      then have "(of_char (char_of ((of_char c :: nat) + 32) :: char) :: nat) = of_char (CHR ''s'')"
        by simp
      then have "((of_char c :: nat) + 32) mod 256 = 115"
        by (simp only: of_char_of) simp
      with True have "(of_char c :: nat) = 83" by auto
      then have "char_of (of_char c :: nat) = (char_of (83::nat) :: char)" by simp
      with up show ?thesis by simp
    next
      case False
      with a show ?thesis by (simp add: py_lower_char_def Let_def)
    qed
  next
    assume "c = CHR ''s'' \<or> c = CHR ''S''"
    then show "py_lower_char c = CHR ''s''"
      by (auto simp: py_lower_char_def lo)
  qed
qed

lemma py_lower_s: "py_lower answer = ''s'' \<longleftrightarrow> answer = ''s'' \<or> answer = ''S''"
  by (cases answer) (auto simp: py_lower_def py_lower_char_s)

lemma train_model_prints: "Preparing \<in> set (fst (train_model fit fault fs df))"
  by (simp add: train_model_def split: sum.splits prod.splits option.splits)

lemma load_data_table:
  "load_data (Table t) = ([Loaded (frame_len (read_csv t))], Inr (Some (read_csv t)))"
  by (simp add: load_data_def Let_def)

lemma main_low_data:
  assumes "training_data_csv w = Table t" and "frame_len (read_csv t) < 50"
  shows "main report fit fault w =
     (let df = read_csv t;
          out = [Banner, Loaded (frame_len df), LowData (frame_len df), ConfirmPrompt]
      in case stdin w of
           [] \<Rightarrow> (out, Some EOFError, w)
         | answer # rest \<Rightarrow>
             if \<not> confirmed (stdin w) then (out, None, w\<lparr>stdin := rest\<rparr>)
             else (case report df of
                     Some e \<Rightarrow> (out, Some e, w\<lparr>stdin := rest\<rparr>)
                   | None \<Rightarrow>
                      (case train_model fit fault (models w) df of
                         (out', Inl e, fs) \<Rightarrow>
                           (out @ out', Some e, w\<lparr>stdin := rest, models := fs\<rparr>)
                       | (out', Inr r, fs) \<Rightarrow>
                           (out @ out' @ [Finished], None, w\<lparr>stdin := rest, models := fs\<rparr>))))"
  using assms
  by (cases "stdin w")
     (simp_all add: main_def load_data_table Let_def confirmed_def py_lower_s
        split: option.splits)

lemma train_bert_low_data:
  assumes "training_data_csv w = Table t" and "frame_len (read_csv t) < 100"
  shows "train_bert finetune w =
     (let df = read_csv t;
          out = [Banner, Loaded (frame_len df), LowData (frame_len df), ConfirmPrompt]
      in case stdin w of
           [] \<Rightarrow> (out, Some EOFError, w)
         | answer # rest \<Rightarrow>
             if \<not> confirmed (stdin w) then (out, None, w\<lparr>stdin := rest\<rparr>)
             else (case prepare_data df of
                     Inl e \<Rightarrow> (out @ [Preparing], Some e, w\<lparr>stdin := rest\<rparr>)
                   | Inr df \<Rightarrow>
                      (case finetune df (models w) of
                         (Some e, fs) \<Rightarrow>
                           (out @ [Preparing], Some e, w\<lparr>stdin := rest, models := fs\<rparr>)
                       | (None, fs) \<Rightarrow>
                           (out @ [Preparing, SavedTo ''./models/bert_model'', Finished], None,
                            w\<lparr>stdin := rest, models := fs\<rparr>))))"
  using assms
  by (cases "stdin w")
     (simp_all add: train_bert_def load_data_table Let_def confirmed_def py_lower_s
        split: sum.splits)

text \<open>
  C7. When the training table has fewer rows than the soft threshold (50 for the classical
  trainer, 100 for the transformer trainer) the run prints the low-data warning and the
  prompt, and it goes on to training only when the operator confirms: without the
  confirmation it stops with \<^verbatim>\<open>models/\<close> untouched, and with it the run reaches the
  training step.
\<close>

theorem low_data_needs_confirmation:
  assumes "training_data_csv w = Table t" and "training_data_csv w2 = Table t2"
  shows "(frame_len (read_csv t) < 50 \<longrightarrow>
            LowData (frame_len (read_csv t)) \<in> set (fst (main report fit fault w)) \<and>
            ConfirmPrompt \<in> set (fst (main report fit fault w)) \<and>
            (\<not> confirmed (stdin w) \<longrightarrow>
               Preparing \<notin> set (fst (main report fit fault w)) \<and>
               models (snd (snd (main report fit fault w))) = models w) \<and>
            (confirmed (stdin w) \<and> report (read_csv t) = None \<longrightarrow>
               Preparing \<in> set (fst (main report fit fault w)))) \<and>
         (frame_len (read_csv t2) < 100 \<longrightarrow>
            LowData (frame_len (read_csv t2)) \<in> set (fst (train_bert finetune w2)) \<and>
            ConfirmPrompt \<in> set (fst (train_bert finetune w2)) \<and>
            (\<not> confirmed (stdin w2) \<longrightarrow>
               Preparing \<notin> set (fst (train_bert finetune w2)) \<and>
               models (snd (snd (train_bert finetune w2))) = models w2) \<and>
            (confirmed (stdin w2) \<longrightarrow> Preparing \<in> set (fst (train_bert finetune w2))))"
proof (intro conjI impI)
  assume low: "frame_len (read_csv t) < 50"
  note m = main_low_data [OF assms(1) low, of report fit fault]
  show "LowData (frame_len (read_csv t)) \<in> set (fst (main report fit fault w))"
    by (simp add: m Let_def split: list.splits option.splits prod.splits sum.splits)
  show "ConfirmPrompt \<in> set (fst (main report fit fault w))"
    by (simp add: m Let_def split: list.splits option.splits prod.splits sum.splits)
  show "Preparing \<notin> set (fst (main report fit fault w))" if "\<not> confirmed (stdin w)"
    using that by (cases "stdin w") (simp_all add: m Let_def)
  show "models (snd (snd (main report fit fault w))) = models w" if "\<not> confirmed (stdin w)"
    using that by (cases "stdin w") (simp_all add: m Let_def)
  show "Preparing \<in> set (fst (main report fit fault w))"
    if "confirmed (stdin w) \<and> report (read_csv t) = None"
  proof -
    from that obtain answer rest where s: "stdin w = answer # rest"
      by (cases "stdin w") (simp_all add: confirmed_def)
    obtain out' r fs where tm: "train_model fit fault (models w) (read_csv t) = (out', r, fs)"
      by (cases "train_model fit fault (models w) (read_csv t)")
    with train_model_prints [of fit fault "models w" "read_csv t"]
    have "Preparing \<in> set out'" by simp
    with that s tm show ?thesis
      by (cases r) (simp_all add: m Let_def)
  qed
next
  assume low: "frame_len (read_csv t2) < 100"
  note b = train_bert_low_data [OF assms(2) low, of finetune]
  show "LowData (frame_len (read_csv t2)) \<in> set (fst (train_bert finetune w2))"
    by (simp add: b Let_def split: list.splits option.splits prod.splits sum.splits)
  show "ConfirmPrompt \<in> set (fst (train_bert finetune w2))"
    by (simp add: b Let_def split: list.splits option.splits prod.splits sum.splits)
  show "Preparing \<notin> set (fst (train_bert finetune w2))" if "\<not> confirmed (stdin w2)"
    using that by (cases "stdin w2") (simp_all add: b Let_def)
  show "models (snd (snd (train_bert finetune w2))) = models w2" if "\<not> confirmed (stdin w2)"
    using that by (cases "stdin w2") (simp_all add: b Let_def)
  show "Preparing \<in> set (fst (train_bert finetune w2))" if "confirmed (stdin w2)"
    using that
    by (cases "stdin w2")
       (simp_all add: b Let_def confirmed_def split: option.splits prod.splits sum.splits)
qed

theorem low_data_needs_confirmation_witness:
  "training_data_csv (example_world (Table csv_example) [''n'']) = Table csv_example \<and>
   frame_len (read_csv csv_example) = 2 \<and> \<not> confirmed [''n''] \<and>
   main example_report example_fit NoFault (example_world (Table csv_example) [''n'']) =
     ([Banner, Loaded 2, LowData 2, ConfirmPrompt], None, example_world (Table csv_example) []) \<and>
   Preparing \<notin> set (fst (main example_report example_fit NoFault
     (example_world (Table csv_example) [''n'']))) \<and>
   train_bert example_finetune (example_world (Table csv_example) [''n'']) =
     ([Banner, Loaded 2, LowData 2, ConfirmPrompt], None, example_world (Table csv_example) []) \<and>
   confirmed [''S''] \<and>
   fst (main example_report example_fit NoFault (example_world (Table csv_example) [''S''])) =
     [Banner, Loaded 2, LowData 2, ConfirmPrompt, Preparing,
      SavedTo model_file, SavedTo vectorizer_file, Finished] \<and>
   fst (train_bert example_finetune (example_world (Table csv_example) [''S''])) =
     [Banner, Loaded 2, LowData 2, ConfirmPrompt, Preparing,
      SavedTo ''./models/bert_model'', Finished]"
proof -
  have t: "training_data_csv (example_world (Table csv_example) [''n'']) = Table csv_example"
    by (simp add: example_world_def)
  have len: "frame_len (read_csv csv_example) = 2"
    by (simp add: read_csv_example) (simp add: frame_example_def)
  have len': "frame_len frame_example = 2"
    by (simp add: frame_example_def)
  have n: "\<not> confirmed (stdin (example_world (Table csv_example) [''n'']))"
    by (simp add: confirmed_def example_world_def)
  from low_data_needs_confirmation [OF t t, of example_report example_fit NoFault] len n
  have p: "Preparing \<notin> set (fst (main example_report example_fit NoFault
     (example_world (Table csv_example) [''n''])))"
    by simp
  have lo: "py_lower ''n'' \<noteq> ''s''" "py_lower ''S'' = ''s''"
    by (simp_all add: py_lower_s)
  have m: "main example_report example_fit NoFault (example_world (Table csv_example) [''n'']) =
     ([Banner, Loaded 2, LowData 2, ConfirmPrompt], None, example_world (Table csv_example) [])"
    by (simp add: main_def load_data_table len example_world_def lo)
  have b: "train_bert example_finetune (example_world (Table csv_example) [''n'']) =
     ([Banner, Loaded 2, LowData 2, ConfirmPrompt], None, example_world (Table csv_example) [])"
    by (simp add: train_bert_def load_data_table len example_world_def lo)
  have ms: "fst (main example_report example_fit NoFault
       (example_world (Table csv_example) [''S''])) =
     [Banner, Loaded 2, LowData 2, ConfirmPrompt, Preparing,
      SavedTo model_file, SavedTo vectorizer_file, Finished]"
    by (simp add: main_def load_data_table len' example_world_def lo example_report_def
        train_model_def read_csv_example extract_features_example example_fit_def
        save_model_and_vectorizer_def)
  have p': "\<exists>df. prepare_data frame_example = Inr df"
    by (simp add: prepare_data_text [where n = "[Str ''SQL Injection'', NaN]"
          and d = "[Str ''Unsanitised input'', Str ''Old API'']"
          and m = "[Str ''query built by concatenation'', NaN]"] frame_example_def getcol_def)
  then obtain df where pd: "prepare_data frame_example = Inr df" ..
  have bs: "fst (train_bert example_finetune (example_world (Table csv_example) [''S''])) =
     [Banner, Loaded 2, LowData 2, ConfirmPrompt, Preparing,
      SavedTo ''./models/bert_model'', Finished]"
    by (simp add: train_bert_def load_data_table len' example_world_def lo
        read_csv_example pd example_finetune_def)
  from t len n p m b ms bs show ?thesis
    by (simp add: confirmed_def example_world_def)
qed

text \<open>
  C8. When \<^verbatim>\<open>data/training_data.csv\<close> is absent, each trainer prints the diagnostic
  and returns: no exception is raised and nothing on disk, \<^verbatim>\<open>models/\<close> included, is
  changed.
\<close>

theorem missing_training_file_halts:
  assumes "training_data_csv w = NoFile" and "training_data_csv w2 = NoFile"
  shows "main report fit fault w = ([Banner, CsvNotFound], None, w) \<and>
         train_bert finetune w2 = ([Banner, CsvNotFound], None, w2)"
  using assms by (simp add: main_def train_bert_def load_data_def)

theorem missing_training_file_halts_witness:
  "training_data_csv (example_world NoFile []) = NoFile \<and>
   main example_report example_fit NoFault (example_world NoFile []) =
     ([Banner, CsvNotFound], None, example_world NoFile []) \<and>
   train_bert example_finetune (example_world NoFile []) =
     ([Banner, CsvNotFound], None, example_world NoFile []) \<and>
   models (example_world NoFile []) = Map.empty"
proof -
  have t: "training_data_csv (example_world NoFile []) = NoFile"
    by (simp add: example_world_def)
  from missing_training_file_halts [OF t t, of example_report example_fit NoFault example_finetune] t
  show ?thesis by (simp add: example_world_def)
qed

text \<open>
  C2, as the code has it. Saving the classical artifact writes the classifier file and then the
  vectorizer file, one after the other and without undoing anything. When no write fails
  both files hold the new pair, and when the failure comes before the classifier file is
  opened neither file is changed. A failure after that leaves the classifier file written
  (or partly written), while the vectorizer file keeps its earlier content or is partly
  written. No other file is touched.
\<close>

theorem save_writes_in_sequence:
  assumes "save_model_and_vectorizer fault fs model vectorizer = (err, fs')"
  shows "(err = None \<longleftrightarrow> fault = NoFault) \<and>
         (fault = NoFault \<longrightarrow>
            fs' model_file = Some (Whole (Classifier model)) \<and>
            fs' vectorizer_file = Some (Whole (Vectorizer vectorizer))) \<and>
         (fault = MakedirsFails \<or> fault = OpenModelFails \<longrightarrow> fs' = fs) \<and>
         (fault = DumpModelFails \<longrightarrow>
            fs' model_file = Some Partial \<and> fs' vectorizer_file = fs vectorizer_file) \<and>
         (fault = OpenVectorizerFails \<longrightarrow>
            fs' model_file = Some (Whole (Classifier model)) \<and>
            fs' vectorizer_file = fs vectorizer_file) \<and>
         (fault = DumpVectorizerFails \<longrightarrow>
            fs' model_file = Some (Whole (Classifier model)) \<and>
            fs' vectorizer_file = Some Partial) \<and>
         (\<forall>p. p \<noteq> model_file \<and> p \<noteq> vectorizer_file \<longrightarrow> fs' p = fs p)"
  using assms
  by (cases fault)
     (auto simp: save_model_and_vectorizer_def model_file_def vectorizer_file_def Let_def)

theorem save_writes_in_sequence_witness:
  "save_model_and_vectorizer NoFault old_models (2::nat) (2::nat) =
     (None, [model_file \<mapsto> Whole (Classifier 2), vectorizer_file \<mapsto> Whole (Vectorizer 2)]) \<and>
   save_model_and_vectorizer OpenModelFails old_models (2::nat) (2::nat) =
     (Some OSError, old_models)"
proof -
  have a: "save_model_and_vectorizer NoFault old_models (2::nat) (2::nat) =
     (None, [model_file \<mapsto> Whole (Classifier 2), vectorizer_file \<mapsto> Whole (Vectorizer 2)])"
    by (simp add: save_model_and_vectorizer_def old_models_def model_file_def
        vectorizer_file_def fun_upd_twist)
  obtain err fs' where
    b: "save_model_and_vectorizer OpenModelFails old_models (2::nat) (2::nat) = (err, fs')"
    by (cases "save_model_and_vectorizer OpenModelFails old_models (2::nat) (2::nat)")
  from save_writes_in_sequence [OF b] have "err \<noteq> None" "fs' = old_models"
    by simp_all
  moreover from b have "err = Some OSError"
    by (simp add: save_model_and_vectorizer_def)
  ultimately show ?thesis using a b by simp
qed

text \<open>
  C2 as stated fails: with the pair of an earlier fit on disk and a failure when the
  vectorizer file is opened, the save raises and leaves the new classifier beside the
  earlier vectorizer, both complete.
\<close>

theorem save_leaves_mismatched_pair:
  "fst (save_model_and_vectorizer OpenVectorizerFails old_models (2::nat) (2::nat)) =
     Some OSError \<and>
   snd (save_model_and_vectorizer OpenVectorizerFails old_models (2::nat) (2::nat)) model_file =
     Some (Whole (Classifier 2)) \<and>
   snd (save_model_and_vectorizer OpenVectorizerFails old_models (2::nat) (2::nat)) vectorizer_file =
     Some (Whole (Vectorizer 1))"
  by (simp add: save_model_and_vectorizer_def old_models_def model_file_def vectorizer_file_def)

end
